theory Spec2Isabelle
  imports Complex_Main
begin

section \<open>Data model (types/screenShare.ts)\<close>

text \<open>The enum \<open>PermissionState\<close> of the source, constructor for constructor.\<close>

datatype PermissionState = IDLE | REQUESTING | GRANTED | CANCELLED | DENIED | ERROR

text \<open>The string-literal union \<open>DisplayType\<close>.\<close>

datatype DisplayType = monitor | window | browser | unknown

text \<open>
  \<open>StreamMetadata\<close>: JavaScript numbers are modelled as reals (NaN and the
  infinities are left out).
\<close>

record StreamMetadata =
  displayType :: DisplayType
  width :: real
  height :: real
  frameRate :: real

text \<open>
  The platform objects the hook reads. A JavaScript \<open>Error\<close> is its \<open>name\<close> and
  \<open>message\<close>. The settings of a track are the four fields the hook looks at, each
  of which the platform may leave \<open>undefined\<close> (\<open>None\<close>). A \<open>MediaStream\<close> is
  its list of tracks together with an identity, so that two granted streams can
  be told apart in the log of released streams.
\<close>

record Error =
  name :: string
  message :: string

record MediaTrackSettings =
  displaySurface :: "string option"
  settings_width :: "real option"
  settings_height :: "real option"
  settings_frameRate :: "real option"

datatype TrackKind = video | audio

record MediaStreamTrack =
  kind :: TrackKind
  getSettings :: MediaTrackSettings

record MediaStream =
  stream_id :: nat
  getTracks :: "MediaStreamTrack list"

definition getVideoTracks :: "MediaStream \<Rightarrow> MediaStreamTrack list" where
  "getVideoTracks mediaStream = filter (\<lambda>t. kind t = video) (getTracks mediaStream)"

section \<open>Strings: \<open>String.prototype.includes\<close>\<close>

fun startsWith :: "string \<Rightarrow> string \<Rightarrow> bool" where
  "startsWith s [] = True"
| "startsWith [] (c # cs) = False"
| "startsWith (x # xs) (c # cs) = (x = c \<and> startsWith xs cs)"

text \<open>\<open>includes_str s sub\<close> is \<open>s.includes(sub)\<close>: \<open>sub\<close> occurs at some position of \<open>s\<close>.\<close>

fun includes_str :: "string \<Rightarrow> string \<Rightarrow> bool" where
  "includes_str [] sub = (sub = [])"
| "includes_str (x # xs) sub = (startsWith (x # xs) sub \<or> includes_str xs sub)"

section \<open>utils/browser.ts\<close>

text \<open>
  \<open>getBrowserInfo\<close> reads \<open>navigator.userAgent\<close>; the argument is \<open>None\<close> when
  \<open>navigator\<close> is undefined and the user-agent string otherwise.
\<close>

definition getBrowserInfo :: "string option \<Rightarrow> string" where
  "getBrowserInfo navigator =
     (case navigator of
        None \<Rightarrow> ''Unknown (no navigator)''
      | Some userAgent \<Rightarrow>
          if includes_str userAgent ''Chrome'' then ''Chrome''
          else if includes_str userAgent ''Edg'' then ''Edge''
          else if includes_str userAgent ''Firefox'' then ''Firefox''
          else if includes_str userAgent ''Safari'' then ''Safari''
          else ''Unknown'')"

section \<open>hooks/useScreenShare.ts\<close>

subsection \<open>The state of one hook instance\<close>

text \<open>
  The five \<open>useState\<close> cells and the ref \<open>isMountedRef\<close>, followed by three
  fields that record the hook's calls into the platform: \<open>requests\<close> counts the
  calls of \<open>getDisplayMedia\<close>, \<open>pending\<close> those of them the platform has not yet
  settled, and \<open>released\<close> lists, in order, the identity of every stream whose
  tracks \<open>cleanupStream\<close> has stopped. The last field, \<open>unmounted\<close>, is React's
  side of the component's life: it is true once React has unmounted the component,
  and from then on the \<open>useState\<close> setters do nothing. It is not the ref: the ref
  is what the code tests, and the code can clear it while the component lives.
\<close>

record hook =
  permissionState :: PermissionState
  stream :: "MediaStream option"
  metadata :: "StreamMetadata option"
  error :: "Error option"
  isActive :: bool
  isMounted :: bool
  requests :: nat
  pending :: nat
  released :: "nat list"
  unmounted :: bool

definition init :: hook where
  "init = \<lparr> permissionState = IDLE, stream = None, metadata = None, error = None,
            isActive = False, isMounted = True, requests = 0, pending = 0,
            released = [], unmounted = False \<rparr>"

subsection \<open>Metadata extraction\<close>

definition getDisplayType :: "MediaStreamTrack \<Rightarrow> DisplayType" where
  "getDisplayType track =
     (let surface = displaySurface (getSettings track) in
        if surface = Some ''monitor'' then monitor
        else if surface = Some ''window'' then window
        else if surface = Some ''browser'' then browser
        else unknown)"

text \<open>\<open>x || 0\<close> on a number that may be undefined: a falsy \<open>x\<close> gives \<open>0\<close>.\<close>

definition orZero :: "real option \<Rightarrow> real" where
  "orZero x = (case x of None \<Rightarrow> 0 | Some v \<Rightarrow> if v = 0 then 0 else v)"

text \<open>\<open>extractMetadata\<close> throws when the stream has no video track: \<open>Inl\<close> is the thrown error.\<close>

definition extractMetadata :: "MediaStream \<Rightarrow> Error + StreamMetadata" where
  "extractMetadata mediaStream =
     (case getVideoTracks mediaStream of
        [] \<Rightarrow> Inl \<lparr> name = ''Error'', message = ''No video track found'' \<rparr>
      | videoTrack # _ \<Rightarrow>
          (let settings = getSettings videoTrack in
             Inr \<lparr> displayType = getDisplayType videoTrack,
                   width = orZero (settings_width settings),
                   height = orZero (settings_height settings),
                   frameRate = orZero (settings_frameRate settings) \<rparr>))"

subsection \<open>The handlers\<close>

text \<open>\<open>cleanupStream\<close> stops every track of the stream it is given, and returns at once on \<open>null\<close>.\<close>

definition cleanupStream :: "MediaStream option \<Rightarrow> hook \<Rightarrow> hook" where
  "cleanupStream mediaStream s =
     (case mediaStream of
        None \<Rightarrow> s
      | Some ms \<Rightarrow> s\<lparr> released := released s @ [stream_id ms] \<rparr>)"

definition handleStreamEnd :: "hook \<Rightarrow> hook" where
  "handleStreamEnd s =
     (if \<not> isMounted s then s
      else s\<lparr> isActive := False, permissionState := IDLE, stream := None, metadata := None \<rparr>)"

text \<open>
  \<open>requestScreenShare\<close> is an async function. Its body up to the \<open>await\<close> runs
  when it is called (\<open>requestScreenShare_call\<close>); the rest runs when the platform
  settles the promise, with a stream (\<open>requestScreenShare_resolved\<close>) or with an
  error (\<open>requestScreenShare_catch\<close>, which is also where an exception thrown after
  the \<open>await\<close> lands). Assigning \<open>videoTrack.onended\<close> writes to the track, not to
  the hook; its firing is the event \<open>TrackEnded\<close> below.

  \<open>setError(null)\<close> and \<open>setPermissionState(REQUESTING)\<close> are the only setter calls
  of the hook that no test of \<open>isMountedRef.current\<close> protects. On a component that
  React has unmounted they have no effect, while the call of \<open>getDisplayMedia\<close> that
  follows them is made all the same. Every other setter call sits behind a test of the
  ref, which is false after unmount (\<open>unmounted_ref_false\<close> below).
\<close>

definition requestScreenShare_call :: "hook \<Rightarrow> hook" where
  "requestScreenShare_call s =
     (if unmounted s then
        s\<lparr> requests := requests s + 1, pending := pending s + 1 \<rparr>
      else
        s\<lparr> error := None, permissionState := REQUESTING,
           requests := requests s + 1, pending := pending s + 1 \<rparr>)"

text \<open>The chain of tests on \<open>err.name\<close> and \<open>err.message\<close> in the catch block.\<close>

definition classify :: "Error \<Rightarrow> PermissionState" where
  "classify err =
     (if name err = ''NotAllowedError'' then
        (if includes_str (message err) ''cancelled'' \<or> includes_str (message err) ''dismiss''
         then CANCELLED else DENIED)
      else if name err = ''NotFoundError'' then CANCELLED
      else if name err = ''NotSupportedError'' then ERROR
      else if name err = ''AbortError'' then CANCELLED
      else ERROR)"

definition requestScreenShare_catch :: "Error \<Rightarrow> hook \<Rightarrow> hook" where
  "requestScreenShare_catch err s =
     (if \<not> isMounted s then s
      else s\<lparr> permissionState := classify err, error := Some err, isActive := False \<rparr>)"

definition requestScreenShare_resolved :: "MediaStream \<Rightarrow> hook \<Rightarrow> hook" where
  "requestScreenShare_resolved mediaStream s =
     (case extractMetadata mediaStream of
        Inl err \<Rightarrow> requestScreenShare_catch err s
      | Inr streamMetadata \<Rightarrow>
          if isMounted s then
            s\<lparr> permissionState := GRANTED, stream := Some mediaStream,
               metadata := Some streamMetadata, isActive := True \<rparr>
          else cleanupStream (Some mediaStream) s)"

definition stopScreenShare :: "hook \<Rightarrow> hook" where
  "stopScreenShare s =
     (case stream s of
        None \<Rightarrow> s
      | Some ms \<Rightarrow>
          (let s' = cleanupStream (Some ms) s in
             if isMounted s' then
               s'\<lparr> isActive := False, permissionState := IDLE, stream := None, metadata := None \<rparr>
             else s'))"

text \<open>
  The function returned by the effect. It closes over the \<open>stream\<close> of the render
  that installed it, the argument \<open>captured\<close>.
\<close>

definition effectCleanup :: "MediaStream option \<Rightarrow> hook \<Rightarrow> hook" where
  "effectCleanup captured s =
     (let s' = s\<lparr> isMounted := False \<rparr> in
        case captured of None \<Rightarrow> s' | Some ms \<Rightarrow> cleanupStream (Some ms) s')"

subsection \<open>Events\<close>

text \<open>
  What can happen to a hook instance: the user interface calls
  \<open>requestScreenShare\<close> or \<open>stopScreenShare\<close>; the platform settles an outstanding
  request by granting a stream or by rejecting with an error; the \<open>onended\<close>
  handler of a granted video track fires; the component unmounts.

  The effect is declared with the dependencies \<open>[stream, cleanupStream]\<close>, and
  \<open>cleanupStream\<close> never changes. React therefore runs the effect's cleanup not
  only at unmount but also after every render in which \<open>stream\<close> differs from the
  previous render, and it runs the cleanup installed by that previous render, which
  closed over the previous \<open>stream\<close>. \<open>rerender\<close> is that step. The cleanup sets
  \<open>isMountedRef.current\<close> to \<open>false\<close>, and nothing in the source sets it back to
  \<open>true\<close>.

  The platform settles only requests that were made: \<open>Grant\<close> and \<open>Reject\<close> do
  nothing when no request is pending. Two streams are the same dependency for React
  when they are the same object, which is equality of the records here, \<open>stream_id\<close>
  included. \<open>Unmount\<close> marks the component as unmounted and runs the cleanup of the
  last render. Events may follow it (a pending promise settles, a track ends, a kept
  reference to \<open>requestScreenShare\<close> is called); the handlers then run as written
  against the last state, with the unprotected setters doing nothing.
\<close>

datatype event = Start | Grant MediaStream | Reject Error | Stop | TrackEnded | Unmount

definition rerender :: "hook \<Rightarrow> hook \<Rightarrow> hook" where
  "rerender prev s = (if stream s \<noteq> stream prev then effectCleanup (stream prev) s else s)"

fun dispatch :: "event \<Rightarrow> hook \<Rightarrow> hook" where
  "dispatch Start s = requestScreenShare_call s"
| "dispatch (Grant mediaStream) s =
     (if pending s = 0 then s
      else requestScreenShare_resolved mediaStream (s\<lparr> pending := pending s - 1 \<rparr>))"
| "dispatch (Reject err) s =
     (if pending s = 0 then s
      else requestScreenShare_catch err (s\<lparr> pending := pending s - 1 \<rparr>))"
| "dispatch Stop s = stopScreenShare s"
| "dispatch TrackEnded s = handleStreamEnd s"
| "dispatch Unmount s = s"

definition step :: "event \<Rightarrow> hook \<Rightarrow> hook" where
  "step e s =
     (if e = Unmount then effectCleanup (stream s) (s\<lparr> unmounted := True \<rparr>)
      else rerender s (dispatch e s))"

fun run :: "event list \<Rightarrow> hook \<Rightarrow> hook" where
  "run [] s = s"
| "run (e # es) s = run es (step e s)"

subsection \<open>Predicates on states and event lists\<close>

text \<open>
  \<open>error_inv\<close> relates \<open>error\<close> to the phase, \<open>stream_inv\<close> relates \<open>stream\<close>,
  \<open>metadata\<close> and the phase. \<open>grantedIds\<close> lists the identities of the streams an
  event list grants, and \<open>held\<close> is the identity of the stream in the state, if any.
\<close>

definition error_inv :: "hook \<Rightarrow> bool" where
  "error_inv s \<longleftrightarrow>
     (permissionState s \<in> {CANCELLED, DENIED, ERROR} \<longrightarrow> error s \<noteq> None) \<and>
     (permissionState s = REQUESTING \<longrightarrow> error s = None)"

definition stream_inv :: "hook \<Rightarrow> bool" where
  "stream_inv s \<longleftrightarrow>
     (stream s = None \<longleftrightarrow> metadata s = None) \<and>
     (permissionState s = GRANTED \<longrightarrow> stream s \<noteq> None \<and> metadata s \<noteq> None)"

fun grantedIds :: "event list \<Rightarrow> nat list" where
  "grantedIds [] = []"
| "grantedIds (Grant mediaStream # es) = stream_id mediaStream # grantedIds es"
| "grantedIds (_ # es) = grantedIds es"

definition held :: "hook \<Rightarrow> nat set" where
  "held s = (case stream s of None \<Rightarrow> {} | Some ms \<Rightarrow> {stream_id ms})"

section \<open>Fixtures\<close>

definition bareSettings :: MediaTrackSettings where
  "bareSettings = \<lparr> displaySurface = None, settings_width = None,
                    settings_height = None, settings_frameRate = None \<rparr>"

definition monitorStream :: MediaStream where
  "monitorStream =
     \<lparr> stream_id = 1,
       getTracks = [\<lparr> kind = video,
                     getSettings = \<lparr> displaySurface = Some ''monitor'', settings_width = Some 1920,
                                     settings_height = Some 1080, settings_frameRate = Some 30 \<rparr> \<rparr>] \<rparr>"

definition bareStream :: MediaStream where
  "bareStream = \<lparr> stream_id = 2, getTracks = [\<lparr> kind = video, getSettings = bareSettings \<rparr>] \<rparr>"

definition audioOnlyStream :: MediaStream where
  "audioOnlyStream = \<lparr> stream_id = 3, getTracks = [\<lparr> kind = audio, getSettings = bareSettings \<rparr>] \<rparr>"

definition dismissed :: Error where
  "dismissed = \<lparr> name = ''NotAllowedError'', message = ''Permission dismissed by user'' \<rparr>"

definition aborted :: Error where
  "aborted = \<lparr> name = ''AbortError'', message = ''The operation was aborted'' \<rparr>"

definition edgeUserAgent :: string where
  "edgeUserAgent = ''Mozilla/5.0 (Windows NT 10.0; Win64; x64) AppleWebKit/537.36 (KHTML, like Gecko) Chrome/120.0.0.0 Safari/537.36 Edg/120.0.0.0''"

section \<open>Supporting lemmas\<close>

lemmas handler_defs =
  requestScreenShare_call_def requestScreenShare_catch_def requestScreenShare_resolved_def
  stopScreenShare_def handleStreamEnd_def effectCleanup_def cleanupStream_def

lemmas driver_defs = step_def rerender_def

lemmas fixture_defs =
  init_def monitorStream_def bareStream_def audioOnlyStream_def bareSettings_def
  dismissed_def aborted_def extractMetadata_def getVideoTracks_def getDisplayType_def
  orZero_def classify_def

subsection \<open>The string model\<close>

lemma startsWith_iff: "startsWith s sub \<longleftrightarrow> (\<exists>post. s = sub @ post)"
  by (induction s sub rule: startsWith.induct) auto

text \<open>\<open>includes_str\<close> is the substring test.\<close>

lemma includes_str_iff: "includes_str s sub \<longleftrightarrow> (\<exists>pre post. s = pre @ sub @ post)"
proof (induction s)
  case Nil
  then show ?case by auto
next
  case (Cons x xs)
  show ?case
  proof
    assume "includes_str (x # xs) sub"
    then consider "startsWith (x # xs) sub" | "includes_str xs sub" by auto
    then show "\<exists>pre post. x # xs = pre @ sub @ post"
    proof cases
      case 1
      then obtain post where "x # xs = sub @ post" by (auto simp: startsWith_iff)
      then have "x # xs = [] @ sub @ post" by simp
      then show ?thesis by blast
    next
      case 2
      then obtain pre post where "xs = pre @ sub @ post" using Cons.IH by auto
      then have "x # xs = (x # pre) @ sub @ post" by simp
      then show ?thesis by blast
    qed
  next
    assume "\<exists>pre post. x # xs = pre @ sub @ post"
    then obtain pre post where e: "x # xs = pre @ sub @ post" by auto
    show "includes_str (x # xs) sub"
    proof (cases pre)
      case Nil
      then have "startsWith (x # xs) sub" using e unfolding startsWith_iff by auto
      then show ?thesis by simp
    next
      case (Cons p ps)
      then have "xs = ps @ sub @ post" using e by simp
      then show ?thesis using Cons.IH by auto
    qed
  qed
qed

subsection \<open>What the effect cleanup leaves alone\<close>

lemma effectCleanup_fields [simp]:
  "permissionState (effectCleanup c s) = permissionState s"
  "stream (effectCleanup c s) = stream s"
  "metadata (effectCleanup c s) = metadata s"
  "error (effectCleanup c s) = error s"
  "isActive (effectCleanup c s) = isActive s"
  "requests (effectCleanup c s) = requests s"
  "pending (effectCleanup c s) = pending s"
  "unmounted (effectCleanup c s) = unmounted s"
  by (simp_all add: effectCleanup_def cleanupStream_def Let_def split: option.splits)

lemma rerender_fields [simp]:
  "permissionState (rerender prev s) = permissionState s"
  "stream (rerender prev s) = stream s"
  "metadata (rerender prev s) = metadata s"
  "error (rerender prev s) = error s"
  "isActive (rerender prev s) = isActive s"
  "requests (rerender prev s) = requests s"
  "pending (rerender prev s) = pending s"
  "unmounted (rerender prev s) = unmounted s"
  by (simp_all add: rerender_def)

subsection \<open>Invariants of the event loop\<close>

lemma classify_cases: "classify err = CANCELLED \<or> classify err = DENIED \<or> classify err = ERROR"
  by (simp add: classify_def)

lemma classify_not [simp]:
  "classify err \<noteq> REQUESTING" "classify err \<noteq> GRANTED" "classify err \<noteq> IDLE"
  using classify_cases [of err] by auto

lemma error_inv_step: "error_inv s \<Longrightarrow> error_inv (step e s)"
  by (cases e)
     (auto simp: error_inv_def handler_defs driver_defs Let_def split: option.splits sum.splits)

lemma error_inv_run: "error_inv s \<Longrightarrow> error_inv (run es s)"
  by (induction es arbitrary: s) (simp_all add: error_inv_step)

lemma stream_inv_step: "stream_inv s \<Longrightarrow> stream_inv (step e s)"
  by (cases e)
     (auto simp: stream_inv_def handler_defs driver_defs Let_def split: option.splits sum.splits)

lemma stream_inv_run: "stream_inv s \<Longrightarrow> stream_inv (run es s)"
  by (induction es arbitrary: s) (simp_all add: stream_inv_step)

text \<open>
  Once a stream is stored, the re-render that follows has run the effect cleanup, so a
  state that holds a stream has \<open>isMountedRef.current = false\<close>.
\<close>

lemma stream_held_unmounted_step:
  "(stream s \<noteq> None \<longrightarrow> \<not> isMounted s) \<Longrightarrow> stream (step e s) \<noteq> None \<longrightarrow> \<not> isMounted (step e s)"
  by (cases e)
     (auto simp: handler_defs driver_defs Let_def split: option.splits sum.splits if_splits)

lemma stream_held_unmounted:
  "(stream s \<noteq> None \<longrightarrow> \<not> isMounted s) \<Longrightarrow> stream (run es s) \<noteq> None \<longrightarrow> \<not> isMounted (run es s)"
proof (induction es arbitrary: s)
  case Nil
  then show ?case by simp
next
  case (Cons e es)
  from Cons.prems have "stream (step e s) \<noteq> None \<longrightarrow> \<not> isMounted (step e s)"
    by (rule stream_held_unmounted_step)
  then show ?case using Cons.IH [of "step e s"] by simp
qed

text \<open>
  After unmount the ref is false: unmount runs the cleanup, which clears it, and nothing
  sets it again. So the setter calls behind a test of the ref are not reached on an
  unmounted component.
\<close>

lemma unmounted_ref_false_step:
  "(unmounted s \<longrightarrow> \<not> isMounted s) \<Longrightarrow> unmounted (step e s) \<longrightarrow> \<not> isMounted (step e s)"
  by (cases e)
     (auto simp: handler_defs driver_defs Let_def split: option.splits sum.splits if_splits)

lemma unmounted_ref_false_run:
  "(unmounted s \<longrightarrow> \<not> isMounted s) \<Longrightarrow> unmounted (run es s) \<longrightarrow> \<not> isMounted (run es s)"
proof (induction es arbitrary: s)
  case Nil
  then show ?case by simp
next
  case (Cons e es)
  from Cons.prems have "unmounted (step e s) \<longrightarrow> \<not> isMounted (step e s)"
    by (rule unmounted_ref_false_step)
  then show ?case using Cons.IH [of "step e s"] by simp
qed

lemma unmounted_ref_false: "unmounted (run es init) \<longrightarrow> \<not> isMounted (run es init)"
  by (rule unmounted_ref_false_run) (simp add: init_def)

text \<open>
  A call of \<open>requestScreenShare\<close> on an unmounted component writes no state cell and
  still asks the platform.
\<close>

lemma start_after_unmount:
  assumes "unmounted s"
  shows "permissionState (step Start s) = permissionState s \<and> error (step Start s) = error s \<and>
         requests (step Start s) = requests s + 1"
  using assms by (simp add: handler_defs driver_defs)

text \<open>
  A stream identity enters the release log only from the state's \<open>stream\<close> or from a
  \<open>Grant\<close> event.
\<close>

lemma step_sources:
  "set (released (step e s)) \<union> held (step e s) \<subseteq> set (released s) \<union> held s \<union> set (grantedIds [e])"
  by (cases e)
     (auto simp: held_def handler_defs driver_defs Let_def split: option.splits sum.splits if_splits)

lemma grantedIds_Cons: "set (grantedIds (e # es)) = set (grantedIds [e]) \<union> set (grantedIds es)"
  by (cases e) auto

lemma run_sources:
  "set (released (run es s)) \<union> held (run es s) \<subseteq> set (released s) \<union> held s \<union> set (grantedIds es)"
proof (induction es arbitrary: s)
  case Nil
  then show ?case by simp
next
  case (Cons e es)
  have "set (released (run (e # es) s)) \<union> held (run (e # es) s)
          \<subseteq> set (released (step e s)) \<union> held (step e s) \<union> set (grantedIds es)"
    using Cons.IH [of "step e s"] by simp
  also have "\<dots> \<subseteq> set (released s) \<union> held s \<union> set (grantedIds [e]) \<union> set (grantedIds es)"
    using step_sources [of e s] by blast
  finally show ?case unfolding grantedIds_Cons [of e es] by blast
qed

subsection \<open>The handlers on their own\<close>

text \<open>
  What \<open>stopScreenShare\<close> and the success continuation do as functions of the state they
  are entered in, whatever the re-render then adds.
\<close>

lemma stopScreenShare_mounted:
  assumes "isMounted s" and "stream s = Some mediaStream"
  shows "stopScreenShare s =
           s\<lparr> released := released s @ [stream_id mediaStream], isActive := False,
              permissionState := IDLE, stream := None, metadata := None \<rparr>"
  using assms by (simp add: handler_defs)

lemma stopScreenShare_no_stream: "stream s = None \<Longrightarrow> stopScreenShare s = s"
  by (simp add: handler_defs)

text \<open>\<open>stopScreenShare\<close> has no call of \<open>setError\<close>: on every branch \<open>error\<close> stays.\<close>

lemma stopScreenShare_error_frame:
  "error (stopScreenShare s) = error s \<and> error (step Stop s) = error s"
  by (simp add: handler_defs driver_defs Let_def split: option.splits)

lemma unmounted_grant_with_video:
  assumes "\<not> isMounted s" and "0 < pending s" and "getVideoTracks mediaStream \<noteq> []"
  shows "step (Grant mediaStream) s =
           s\<lparr> pending := pending s - 1, released := released s @ [stream_id mediaStream] \<rparr>"
  using assms
  by (cases "getVideoTracks mediaStream")
     (simp_all add: extractMetadata_def handler_defs driver_defs Let_def)

lemma unmounted_grant_keeps_state:
  assumes "\<not> isMounted s"
  shows "permissionState (step (Grant mediaStream) s) = permissionState s \<and>
         stream (step (Grant mediaStream) s) = stream s \<and>
         metadata (step (Grant mediaStream) s) = metadata s \<and>
         error (step (Grant mediaStream) s) = error s \<and>
         isActive (step (Grant mediaStream) s) = isActive s"
  using assms
  by (simp add: handler_defs driver_defs Let_def split: sum.splits)

section \<open>The claims\<close>

subsection \<open>C1: \<open>start()\<close> while a request is in flight or a stream is active\<close>

text \<open>
  \<open>requestScreenShare\<close> tests nothing before it resets \<open>error\<close>, sets the phase and
  calls \<open>getDisplayMedia\<close>. From the state after a grant (phase \<open>GRANTED\<close>), and from the
  state after a first call (phase \<open>REQUESTING\<close>), a call makes a second platform request;
  from \<open>GRANTED\<close> it also changes the phase.
\<close>

theorem start_while_active_counterexample:
  "permissionState (run [Start, Grant monitorStream] init) = GRANTED \<and>
   requests (run [Start, Grant monitorStream] init) = 1 \<and>
   requests (step Start (run [Start, Grant monitorStream] init)) = 2 \<and>
   permissionState (step Start (run [Start, Grant monitorStream] init)) = REQUESTING \<and>
   permissionState (run [Start] init) = REQUESTING \<and>
   requests (run [Start] init) = 1 \<and>
   requests (step Start (run [Start] init)) = 2"
  by (simp add: handler_defs driver_defs fixture_defs)

text \<open>
  C1, as the code has it: in every state of a component that React has not unmounted,
  \<open>REQUESTING\<close> and \<open>GRANTED\<close> included, a call of \<open>requestScreenShare\<close> makes one
  new platform request, clears \<open>error\<close> and sets the phase to \<open>REQUESTING\<close>; it leaves
  \<open>stream\<close>, \<open>metadata\<close>, \<open>isActive\<close>, the mounted flag and the released streams as
  they were.
\<close>

theorem start_unguarded:
  assumes "\<not> unmounted s"
  shows "requests (step Start s) = requests s + 1 \<and>
         pending (step Start s) = pending s + 1 \<and>
         permissionState (step Start s) = REQUESTING \<and>
         error (step Start s) = None \<and>
         stream (step Start s) = stream s \<and>
         metadata (step Start s) = metadata s \<and>
         isActive (step Start s) = isActive s \<and>
         isMounted (step Start s) = isMounted s \<and>
         released (step Start s) = released s"
  using assms by (simp add: handler_defs driver_defs)

theorem start_unguarded_witness:
  "\<not> unmounted (run [Start, Grant monitorStream] init) \<and>
   permissionState (run [Start, Grant monitorStream] init) = GRANTED \<and>
   requests (run [Start, Grant monitorStream, Start] init) = 2 \<and>
   permissionState (run [Start, Grant monitorStream, Start] init) = REQUESTING \<and>
   stream (run [Start, Grant monitorStream, Start] init) = Some monitorStream \<and>
   \<not> unmounted (run [Start] init) \<and>
   permissionState (run [Start] init) = REQUESTING \<and>
   requests (run [Start, Start] init) = 2 \<and>
   pending (run [Start, Start] init) = 2"
  using start_unguarded [of "run [Start, Grant monitorStream] init"]
    start_unguarded [of "run [Start] init"]
  by (simp add: handler_defs driver_defs fixture_defs)

subsection \<open>C2: every acquired stream is released exactly once\<close>

text \<open>
  C2 fails on the code in both directions. A granted stream without a video track makes
  \<open>extractMetadata\<close> throw; the catch block sets the phase to \<open>ERROR\<close> and never calls
  \<open>cleanupStream\<close>, and the stream was not stored, so it is released zero times, also
  after unmount. A granted stream with a video track that is stopped and then unmounted is
  released twice: \<open>stopScreenShare\<close> stops its tracks but skips the state reset (the mounted
  flag is already false), so the stream is still in the state when the unmount cleanup
  runs.
\<close>

theorem release_not_exactly_once:
  "permissionState (run [Start, Grant audioOnlyStream] init) = ERROR \<and>
   stream (run [Start, Grant audioOnlyStream] init) = None \<and>
   released (run [Start, Grant audioOnlyStream] init) = [] \<and>
   released (run [Start, Grant audioOnlyStream, Unmount] init) = [] \<and>
   released (run [Start, Grant monitorStream, Stop, Unmount] init) = [1, 1]"
  by (simp add: handler_defs driver_defs fixture_defs)

text \<open>No later event releases the stream that was dropped, unless the platform grants it again.\<close>

lemma orphan_never_released:
  assumes "stream_id audioOnlyStream \<notin> set (grantedIds es)"
  shows "stream_id audioOnlyStream \<notin> set (released (run es (run [Start, Grant audioOnlyStream] init)))"
proof -
  have "set (released (run [Start, Grant audioOnlyStream] init)) = {}"
    and "held (run [Start, Grant audioOnlyStream] init) = {}"
    by (simp_all add: held_def handler_defs driver_defs fixture_defs)
  then show ?thesis
    using run_sources [of es "run [Start, Grant audioOnlyStream] init"] assms by auto
qed

subsection \<open>C3: \<open>error\<close> and the phase\<close>

text \<open>
  The catch block stores the error after every classification. A rejection whose message
  says the picker was dismissed ends in \<open>CANCELLED\<close> with the error stored.
\<close>

theorem cancelled_keeps_error_counterexample:
  "permissionState (run [Start, Reject dismissed] init) = CANCELLED \<and>
   error (run [Start, Reject dismissed] init) = Some dismissed"
  by (simp add: handler_defs driver_defs fixture_defs)

text \<open>
  C3, as the code has it: in every reachable state \<open>error\<close> is present whenever the phase
  is \<open>CANCELLED\<close>, \<open>DENIED\<close> or \<open>ERROR\<close>, and absent whenever the phase is \<open>REQUESTING\<close>;
  a rejection handled while the hook is mounted stores the rejection error whatever the
  phase it resolves to, \<open>CANCELLED\<close> included.
\<close>

theorem error_after_rejection:
  "(permissionState (run es init) \<in> {CANCELLED, DENIED, ERROR} \<longrightarrow> error (run es init) \<noteq> None) \<and>
   (permissionState (run es init) = REQUESTING \<longrightarrow> error (run es init) = None) \<and>
   (isMounted (run es init) \<and> 0 < pending (run es init) \<longrightarrow>
      permissionState (step (Reject err) (run es init)) = classify err \<and>
      error (step (Reject err) (run es init)) = Some err)"
proof -
  have "error_inv init" by (simp add: error_inv_def init_def)
  then have "error_inv (run es init)" by (rule error_inv_run)
  moreover have "isMounted (run es init) \<and> 0 < pending (run es init) \<longrightarrow>
      permissionState (step (Reject err) (run es init)) = classify err \<and>
      error (step (Reject err) (run es init)) = Some err"
    by (simp add: handler_defs driver_defs)
  ultimately show ?thesis by (simp add: error_inv_def)
qed

theorem error_after_rejection_witness:
  "isMounted (run [Start] init) \<and> 0 < pending (run [Start] init) \<and>
   permissionState (run [Start, Reject dismissed] init) = CANCELLED \<and>
   error (run [Start, Reject dismissed] init) \<noteq> None \<and>
   permissionState (run [Start] init) = REQUESTING \<and>
   error (run [Start] init) = None"
  using error_after_rejection [of "[Start]" dismissed]
    error_after_rejection [of "[Start, Reject dismissed]" dismissed]
  by (simp add: handler_defs driver_defs fixture_defs)

subsection \<open>C4: classification of a rejected request\<close>

text \<open>The branch for \<open>AbortError\<close> sets \<open>CANCELLED\<close>, not \<open>ERROR\<close>.\<close>

theorem abort_is_cancelled_counterexample:
  "name aborted = ''AbortError'' \<and>
   permissionState (run [Start, Reject aborted] init) = CANCELLED \<and>
   permissionState (run [Start, Reject aborted] init) \<noteq> ERROR"
  by (simp add: handler_defs driver_defs fixture_defs)

text \<open>
  C4, as the code has it: \<open>NotSupportedError\<close> and every name other than
  \<open>NotAllowedError\<close>, \<open>NotFoundError\<close>, \<open>NotSupportedError\<close> and \<open>AbortError\<close> resolve to
  \<open>ERROR\<close>; \<open>AbortError\<close> and \<open>NotFoundError\<close> resolve to \<open>CANCELLED\<close>; \<open>NotAllowedError\<close>
  resolves to \<open>CANCELLED\<close> when its message contains \<open>cancelled\<close> or \<open>dismiss\<close> and to
  \<open>DENIED\<close> otherwise. That classification is the phase after a rejection handled while
  the hook is mounted.
\<close>

theorem rejection_classified:
  "(name err = ''NotSupportedError'' \<longrightarrow> classify err = ERROR) \<and>
   (name err \<notin> {''NotAllowedError'', ''NotFoundError'', ''NotSupportedError'', ''AbortError''}
      \<longrightarrow> classify err = ERROR) \<and>
   (name err = ''AbortError'' \<longrightarrow> classify err = CANCELLED) \<and>
   (name err = ''NotFoundError'' \<longrightarrow> classify err = CANCELLED) \<and>
   (name err = ''NotAllowedError'' \<longrightarrow>
      classify err =
        (if includes_str (message err) ''cancelled'' \<or> includes_str (message err) ''dismiss''
         then CANCELLED else DENIED)) \<and>
   (isMounted s \<and> 0 < pending s \<longrightarrow> permissionState (step (Reject err) s) = classify err)"
  by (simp add: classify_def handler_defs driver_defs)

theorem rejection_classified_witness:
  "isMounted (run [Start] init) \<and> 0 < pending (run [Start] init) \<and>
   name aborted = ''AbortError'' \<and>
   permissionState (step (Reject aborted) (run [Start] init)) = CANCELLED \<and>
   classify \<lparr> name = ''NotSupportedError'', message = [] \<rparr> = ERROR \<and>
   classify \<lparr> name = ''TypeError'', message = [] \<rparr> = ERROR \<and>
   classify \<lparr> name = ''NotFoundError'', message = [] \<rparr> = CANCELLED \<and>
   classify dismissed = CANCELLED \<and>
   classify \<lparr> name = ''NotAllowedError'', message = ''Permission denied'' \<rparr> = DENIED"
  using rejection_classified [of aborted "run [Start] init"]
    rejection_classified [of "\<lparr> name = ''NotSupportedError'', message = [] \<rparr>" init]
    rejection_classified [of "\<lparr> name = ''TypeError'', message = [] \<rparr>" init]
    rejection_classified [of "\<lparr> name = ''NotFoundError'', message = [] \<rparr>" init]
    rejection_classified [of dismissed init]
    rejection_classified [of "\<lparr> name = ''NotAllowedError'', message = ''Permission denied'' \<rparr>" init]
  by (simp add: handler_defs driver_defs init_def aborted_def dismissed_def)

subsection \<open>C5: \<open>stream\<close>, \<open>metadata\<close> and the phase\<close>

text \<open>
  A call of \<open>requestScreenShare\<close> while a stream is held sets the phase to \<open>REQUESTING\<close>
  and leaves \<open>stream\<close> and \<open>metadata\<close> in place.
\<close>

theorem start_keeps_stream_counterexample:
  "permissionState (run [Start, Grant monitorStream, Start] init) = REQUESTING \<and>
   stream (run [Start, Grant monitorStream, Start] init) = Some monitorStream \<and>
   metadata (run [Start, Grant monitorStream, Start] init) =
     Some \<lparr> displayType = monitor, width = 1920, height = 1080, frameRate = 30 \<rparr>"
  by (simp add: handler_defs driver_defs fixture_defs)

text \<open>
  C5, as the code has it: in every reachable state \<open>stream\<close> and \<open>metadata\<close> are both
  present or both absent, and both are present whenever the phase is \<open>GRANTED\<close>; every
  event preserves this. (The converse is what fails: they can be present in another
  phase.)
\<close>

theorem stream_and_metadata_together:
  "(stream (run es init) = None \<longleftrightarrow> metadata (run es init) = None) \<and>
   (permissionState (run es init) = GRANTED \<longrightarrow>
      stream (run es init) \<noteq> None \<and> metadata (run es init) \<noteq> None) \<and>
   (stream_inv s \<longrightarrow> stream_inv (step e s))"
proof -
  have "stream_inv init" by (simp add: stream_inv_def init_def)
  then have "stream_inv (run es init)" by (rule stream_inv_run)
  then show ?thesis by (simp add: stream_inv_def [of "run es init"] stream_inv_step)
qed

theorem stream_and_metadata_together_witness:
  "permissionState (run [Start, Grant monitorStream] init) = GRANTED \<and>
   stream (run [Start, Grant monitorStream] init) \<noteq> None \<and>
   metadata (run [Start, Grant monitorStream] init) \<noteq> None \<and>
   stream_inv init \<and> stream_inv (step Start init)"
  using stream_and_metadata_together [of "[Start, Grant monitorStream]" init Start]
  by (simp add: stream_inv_def handler_defs driver_defs fixture_defs)

subsection \<open>C6: metadata extraction\<close>

text \<open>
  C6: on a stream with a video track \<open>extractMetadata\<close> returns a record and does not
  throw. A display surface other than \<open>monitor\<close>, \<open>window\<close> and \<open>browser\<close>, or none,
  gives \<open>unknown\<close>; a width, height or frame rate that the settings leave out is \<open>0\<close>;
  settings that report nothing give \<open>{unknown, 0, 0, 0}\<close>. When such a stream is granted
  to a mounted hook with a request pending, the phase becomes \<open>GRANTED\<close> and that record
  is the stored metadata.
\<close>

theorem extractMetadata_total:
  assumes "getVideoTracks mediaStream = videoTrack # rest"
  shows "\<exists>md. extractMetadata mediaStream = Inr md \<and>
           (displaySurface (getSettings videoTrack)
              \<notin> {Some ''monitor'', Some ''window'', Some ''browser''} \<longrightarrow> displayType md = unknown) \<and>
           (settings_width (getSettings videoTrack) = None \<longrightarrow> width md = 0) \<and>
           (settings_height (getSettings videoTrack) = None \<longrightarrow> height md = 0) \<and>
           (settings_frameRate (getSettings videoTrack) = None \<longrightarrow> frameRate md = 0) \<and>
           (getSettings videoTrack = bareSettings \<longrightarrow>
              md = \<lparr> displayType = unknown, width = 0, height = 0, frameRate = 0 \<rparr>) \<and>
           (isMounted s \<and> 0 < pending s \<longrightarrow>
              permissionState (step (Grant mediaStream) s) = GRANTED \<and>
              metadata (step (Grant mediaStream) s) = Some md)"
proof -
  define md where
    "md = \<lparr> displayType = getDisplayType videoTrack,
             width = orZero (settings_width (getSettings videoTrack)),
             height = orZero (settings_height (getSettings videoTrack)),
             frameRate = orZero (settings_frameRate (getSettings videoTrack)) \<rparr>"
  have extracted: "extractMetadata mediaStream = Inr md"
    using assms by (simp add: extractMetadata_def md_def Let_def)
  have surface: "displaySurface (getSettings videoTrack)
      \<notin> {Some ''monitor'', Some ''window'', Some ''browser''} \<longrightarrow> displayType md = unknown"
    by (simp add: md_def getDisplayType_def)
  have numbers:
    "settings_width (getSettings videoTrack) = None \<longrightarrow> width md = 0"
    "settings_height (getSettings videoTrack) = None \<longrightarrow> height md = 0"
    "settings_frameRate (getSettings videoTrack) = None \<longrightarrow> frameRate md = 0"
    by (simp_all add: md_def orZero_def)
  have bare: "getSettings videoTrack = bareSettings \<longrightarrow>
      md = \<lparr> displayType = unknown, width = 0, height = 0, frameRate = 0 \<rparr>"
    by (simp add: md_def getDisplayType_def orZero_def bareSettings_def)
  have stored: "isMounted s \<and> 0 < pending s \<longrightarrow>
      permissionState (step (Grant mediaStream) s) = GRANTED \<and>
      metadata (step (Grant mediaStream) s) = Some md"
    using extracted by (simp add: step_def requestScreenShare_resolved_def)
  from extracted surface numbers bare stored show ?thesis
    by (intro exI [of _ md] conjI)
qed

theorem extractMetadata_total_witness:
  "getVideoTracks bareStream = [\<lparr> kind = video, getSettings = bareSettings \<rparr>] \<and>
   isMounted (run [Start] init) \<and> 0 < pending (run [Start] init) \<and>
   extractMetadata bareStream =
     Inr \<lparr> displayType = unknown, width = 0, height = 0, frameRate = 0 \<rparr> \<and>
   permissionState (run [Start, Grant bareStream] init) = GRANTED \<and>
   metadata (run [Start, Grant bareStream] init) =
     Some \<lparr> displayType = unknown, width = 0, height = 0, frameRate = 0 \<rparr>"
proof -
  have tracks: "getVideoTracks bareStream = [\<lparr> kind = video, getSettings = bareSettings \<rparr>]"
    by (simp add: getVideoTracks_def bareStream_def)
  have ready: "isMounted (run [Start] init) \<and> 0 < pending (run [Start] init)"
    by (simp add: step_def rerender_def requestScreenShare_call_def init_def)
  from extractMetadata_total [OF tracks, of "run [Start] init"]
  obtain md where
    "extractMetadata bareStream = Inr md"
    "getSettings \<lparr> kind = video, getSettings = bareSettings \<rparr> = bareSettings \<longrightarrow>
       md = \<lparr> displayType = unknown, width = 0, height = 0, frameRate = 0 \<rparr>"
    "isMounted (run [Start] init) \<and> 0 < pending (run [Start] init) \<longrightarrow>
       permissionState (step (Grant bareStream) (run [Start] init)) = GRANTED \<and>
       metadata (step (Grant bareStream) (run [Start] init)) = Some md"
    by (elim exE conjE)
  with tracks ready show ?thesis by simp
qed

subsection \<open>C7: a grant that arrives after unmount\<close>

text \<open>
  C7 holds for a granted stream with a video track (\<open>unmounted_grant_with_video\<close>), and no
  state cell is written in any case (\<open>unmounted_grant_keeps_state\<close>). It fails for a
  granted stream without a video track: \<open>extractMetadata\<close> throws before the mounted
  test of the success path is reached, the catch block returns because the hook is
  unmounted, and \<open>cleanupStream\<close> is not called. The last conjunct is the sibling path,
  which does release.
\<close>

theorem unmounted_grant_without_video_not_released:
  "isMounted (run [Start, Unmount] init) = False \<and>
   pending (run [Start, Unmount] init) = 1 \<and>
   getVideoTracks audioOnlyStream = [] \<and>
   released (run [Start, Unmount, Grant audioOnlyStream] init) = [] \<and>
   released (run [Start, Unmount, Grant monitorStream] init) = [stream_id monitorStream]"
  by (simp add: handler_defs driver_defs fixture_defs)

subsection \<open>C8: \<open>stop()\<close> from the active phase\<close>

text \<open>
  C8 fails on the code. In every reachable state that holds a stream the mounted flag is
  false, because the effect cleanup ran when \<open>stream\<close> changed; \<open>stopScreenShare\<close> then
  stops the tracks and skips the reset. A call of \<open>stopScreenShare\<close> in such a state
  changes nothing but the release log: the phase stays \<open>GRANTED\<close>, \<open>stream\<close> and
  \<open>metadata\<close> stay, and a second call stops the same tracks again.
\<close>

theorem stop_skips_reset:
  assumes "stream (run es init) = Some mediaStream"
  shows "step Stop (run es init) =
           (run es init)\<lparr> released := released (run es init) @ [stream_id mediaStream] \<rparr>"
proof -
  have "stream init \<noteq> None \<longrightarrow> \<not> isMounted init" by (simp add: init_def)
  then have "stream (run es init) \<noteq> None \<longrightarrow> \<not> isMounted (run es init)"
    by (rule stream_held_unmounted)
  with assms have "\<not> isMounted (run es init)" by simp
  with assms show ?thesis by (simp add: handler_defs driver_defs)
qed

theorem stop_skips_reset_witness:
  "stream (run [Start, Grant monitorStream] init) = Some monitorStream \<and>
   permissionState (run [Start, Grant monitorStream, Stop] init) = GRANTED \<and>
   stream (run [Start, Grant monitorStream, Stop] init) = Some monitorStream \<and>
   isActive (run [Start, Grant monitorStream, Stop] init) \<and>
   released (run [Start, Grant monitorStream, Stop] init) = [1] \<and>
   released (run [Start, Grant monitorStream, Stop, Stop] init) = [1, 1]"
  using stop_skips_reset [of "[Start, Grant monitorStream]" monitorStream]
  by (simp add: handler_defs driver_defs fixture_defs)

subsection \<open>C9: \<open>getBrowserInfo\<close> tests \<open>Chrome\<close> before \<open>Edg\<close>\<close>

text \<open>
  C9: a user agent that contains \<open>Chrome\<close> is reported as \<open>Chrome\<close>, whether or not it
  contains \<open>Edg\<close>; \<open>Edge\<close> is the answer exactly for the user agents that contain \<open>Edg\<close>
  and not \<open>Chrome\<close>. The user agent of an Edge browser contains both and is reported as
  \<open>Chrome\<close>.
\<close>

theorem getBrowserInfo_Chrome_before_Edge:
  "(includes_str userAgent ''Chrome'' \<longrightarrow> getBrowserInfo (Some userAgent) = ''Chrome'') \<and>
   (getBrowserInfo (Some userAgent) = ''Edge'' \<longleftrightarrow>
      includes_str userAgent ''Edg'' \<and> \<not> includes_str userAgent ''Chrome'')"
  by (simp add: getBrowserInfo_def)

theorem getBrowserInfo_Chrome_before_Edge_witness:
  "includes_str edgeUserAgent ''Chrome'' \<and> includes_str edgeUserAgent ''Edg'' \<and>
   getBrowserInfo (Some edgeUserAgent) = ''Chrome'' \<and>
   getBrowserInfo (Some ''Mozilla/5.0 Edg/120.0.0.0'') = ''Edge''"
  using getBrowserInfo_Chrome_before_Edge [of edgeUserAgent]
    getBrowserInfo_Chrome_before_Edge [of "''Mozilla/5.0 Edg/120.0.0.0''"]
  by (simp add: edgeUserAgent_def)

subsection \<open>C10: \<open>stopScreenShare\<close> on an active stream, and \<open>error\<close>\<close>

text \<open>
  C10 has two halves. The frame holds: \<open>stopScreenShare\<close> never writes \<open>error\<close>
  (\<open>stopScreenShare_error_frame\<close>, for every state). The other half fails on the code:
  stopping an active stream does not clear the phase, \<open>stream\<close>, \<open>metadata\<close> and
  \<open>isActive\<close>, because the reset is behind the mounted flag, which the effect cleanup
  cleared when the stream was stored. After start, grant and stop the four cells are what
  they were before the stop, and so is \<open>error\<close>.
\<close>

theorem stop_keeps_error_and_skips_clearing:
  "permissionState (run [Start, Grant monitorStream] init) = GRANTED \<and>
   isActive (run [Start, Grant monitorStream] init) \<and>
   permissionState (run [Start, Grant monitorStream, Stop] init) = GRANTED \<and>
   stream (run [Start, Grant monitorStream, Stop] init) = Some monitorStream \<and>
   metadata (run [Start, Grant monitorStream, Stop] init) =
     Some \<lparr> displayType = monitor, width = 1920, height = 1080, frameRate = 30 \<rparr> \<and>
   isActive (run [Start, Grant monitorStream, Stop] init) \<and>
   error (run [Start, Grant monitorStream, Stop] init) = error (run [Start, Grant monitorStream] init)"
  by (simp add: handler_defs driver_defs fixture_defs)

end
